theory Spec2Isabelle
  imports Complex_Main
begin

section \<open>Python values and conversions used by the annotator\<close>

text \<open>
  The Python attribute \<open>group_id\<close> of a shape is dynamically typed: it holds \<open>None\<close>,
  an \<open>int\<close> or a \<open>str\<close>, depending on where the shape came from (the label dialog, a
  contour of a mask, a JSON file).
\<close>

datatype pyval = PyNone | PyInt int | PyStr string

datatype py_error = ValueError | TypeError | IndexError

text \<open>
  \<open>str(x)\<close> for the three kinds of value. The decimal digits of a natural number are
  produced most significant first.
\<close>

definition digit_char :: "nat \<Rightarrow> char" where
  "digit_char n = ''0123456789'' ! (n mod 10)"

function str_nat :: "nat \<Rightarrow> string" where
  "str_nat n = (if n < 10 then [digit_char n] else str_nat (n div 10) @ [digit_char n])"
  by pat_completeness auto
termination
  by (relation "measure (\<lambda>n. n)") auto

declare str_nat.simps [simp del]

definition str_int :: "int \<Rightarrow> string" where
  "str_int i = (if i < 0 then CHR ''-'' # str_nat (nat (- i)) else str_nat (nat i))"

fun py_str :: "pyval \<Rightarrow> string" where
  "py_str PyNone = ''None''"
| "py_str (PyInt i) = str_int i"
| "py_str (PyStr s) = s"

text \<open>
  \<open>int(x)\<close>: identity on an \<open>int\<close>, \<open>TypeError\<close> on \<open>None\<close>, and on a \<open>str\<close> the
  decimal parse of Python (surrounding whitespace stripped, an optional sign, decimal
  digits, single underscores allowed between digits), \<open>ValueError\<close> otherwise.
  Only ASCII whitespace and ASCII digits are modelled.
\<close>

definition is_space :: "char \<Rightarrow> bool" where
  "is_space c = (c \<in> set [CHR '' '', CHR 0x09, CHR 0x0A, CHR 0x0B, CHR 0x0C, CHR 0x0D])"

definition is_digit :: "char \<Rightarrow> bool" where
  "is_digit c = (c \<in> set ''0123456789'')"

definition digit_val :: "char \<Rightarrow> nat" where
  "digit_val c = of_char c - 48"

definition strip :: "string \<Rightarrow> string" where
  "strip s = rev (dropWhile is_space (rev (dropWhile is_space s)))"

fun digits_acc :: "nat \<Rightarrow> string \<Rightarrow> nat option" where
  "digits_acc acc [] = Some acc"
| "digits_acc acc [c] = (if is_digit c then Some (acc * 10 + digit_val c) else None)"
| "digits_acc acc (c # d # cs) =
     (if \<not> is_digit c then None
      else if d = CHR ''_'' then
        (case cs of
           [] \<Rightarrow> None
         | e # _ \<Rightarrow> if is_digit e then digits_acc (acc * 10 + digit_val c) cs else None)
      else digits_acc (acc * 10 + digit_val c) (d # cs))"

definition parse_nat :: "string \<Rightarrow> nat option" where
  "parse_nat s = (case s of [] \<Rightarrow> None | _ # _ \<Rightarrow> digits_acc 0 s)"

definition int_of_str :: "string \<Rightarrow> py_error + int" where
  "int_of_str s =
     (case strip s of
        [] \<Rightarrow> Inl ValueError
      | c # cs \<Rightarrow>
          if c = CHR ''-'' then
            (case parse_nat cs of None \<Rightarrow> Inl ValueError | Some n \<Rightarrow> Inr (- int n))
          else if c = CHR ''+'' then
            (case parse_nat cs of None \<Rightarrow> Inl ValueError | Some n \<Rightarrow> Inr (int n))
          else
            (case parse_nat (c # cs) of None \<Rightarrow> Inl ValueError | Some n \<Rightarrow> Inr (int n)))"

fun py_int :: "pyval \<Rightarrow> py_error + int" where
  "py_int PyNone = Inl TypeError"
| "py_int (PyInt i) = Inr i"
| "py_int (PyStr s) = int_of_str s"

section \<open>Shapes and the annotation set\<close>

type_synonym point = "real \<times> real"

text \<open>
  Modelled from the spec: the class \<open>Shape\<close> (module \<open>shape\<close>, imported by the annotator)
  with the attributes the annotator reads and writes: label (a string), shape type,
  group id, the ordered points and the flags (a dictionary or \<open>None\<close>). Coordinates are
  Python floats, modelled as reals.
\<close>

record shape =
  label :: string
  shape_type :: string
  group_id :: pyval
  flags :: "(string \<times> bool) list option"
  points :: "point list"

text \<open>
  \<open>Shape(label=..., shape_type=..., group_id=..., flags=...)\<close> followed by one
  \<open>addPoint\<close> per point.
\<close>

definition Shape :: "string \<Rightarrow> string \<Rightarrow> pyval \<Rightarrow> (string \<times> bool) list option \<Rightarrow> point list \<Rightarrow> shape" where
  "Shape l t g f ps = \<lparr>label = l, shape_type = t, group_id = g, flags = f, points = ps\<rparr>"

text \<open>
  \<open>getMaxId\<close>: the loop over \<open>self.labelList\<close> (the committed shapes, in order). The call
  \<open>int(group_id)\<close> may raise, which ends the loop with that error.
\<close>

fun getMaxId_loop :: "int \<Rightarrow> shape list \<Rightarrow> py_error + int" where
  "getMaxId_loop max_id [] = Inr max_id"
| "getMaxId_loop max_id (s # ss) =
     (if group_id s \<noteq> PyNone then
        (case py_int (group_id s) of
           Inl e \<Rightarrow> Inl e
         | Inr g \<Rightarrow> getMaxId_loop (max max_id g) ss)
      else getMaxId_loop max_id ss)"

definition getMaxId :: "shape list \<Rightarrow> py_error + int" where
  "getMaxId labelList = getMaxId_loop (- 1) labelList"

text \<open>\<open>getMaxId() + 1\<close>, as every caller computes the next group id.\<close>

definition nextGroupId :: "shape list \<Rightarrow> py_error + int" where
  "nextGroupId labelList = (case getMaxId labelList of Inl e \<Rightarrow> Inl e | Inr m \<Rightarrow> Inr (m + 1))"

section \<open>The annotation file\<close>

text \<open>
  One entry of the \<open>"shapes"\<close> array of the annotation file. \<open>json.dump\<close> followed by
  \<open>json.load\<close> gives back the same strings, numbers and \<open>null\<close>, so the file is modelled
  by the list of its shape entries.
\<close>

record json_shape =
  js_label :: string
  js_points :: "point list"
  js_group_id :: pyval
  js_shape_type :: string
  js_flags :: "(string \<times> bool) list option"

text \<open>\<open>format_shape\<close> of \<open>saveLabels\<close>: the group id is written as \<open>str(s.group_id)\<close>.\<close>

definition format_shape :: "shape \<Rightarrow> json_shape" where
  "format_shape s =
     \<lparr>js_label = label s,
      js_points = points s,
      js_group_id = PyStr (py_str (group_id s)),
      js_shape_type = shape_type s,
      js_flags = flags s\<rparr>"

definition saveLabels :: "shape list \<Rightarrow> json_shape list" where
  "saveLabels labelList = map format_shape labelList"

text \<open>
  The subscript \<open>xs[i]\<close> of a Python list of length \<open>n\<close>: the element at \<open>i\<close> for
  \<open>0 \<le> i < n\<close>, the element at \<open>n + i\<close> for \<open>-n \<le> i < 0\<close>, and \<open>IndexError\<close> for
  every other index.
\<close>

definition py_index :: "'a list \<Rightarrow> int \<Rightarrow> py_error + 'a" where
  "py_index xs i =
     (if 0 \<le> i \<and> i < int (length xs) then Inr (xs ! nat i)
      else if i < 0 \<and> - int (length xs) \<le> i then Inr (xs ! nat (int (length xs) + i))
      else Inl IndexError)"

text \<open>
  The \<open>try\<close> block of \<open>loadAnno\<close>: \<open>ttt = int(label); label = self.category_list[ttt]\<close>,
  where any exception leaves the label as it was read.
\<close>

definition resolve_label :: "string list \<Rightarrow> string \<Rightarrow> string" where
  "resolve_label category_list l =
     (case py_int (PyStr l) of
        Inl _ \<Rightarrow> l
      | Inr ttt \<Rightarrow>
          (case py_index category_list ttt of
             Inl _ \<Rightarrow> l
           | Inr c \<Rightarrow> c))"

text \<open>
  \<open>loadAnno\<close>: one iteration per shape entry; an entry with no points is skipped, every
  other entry becomes a \<open>Shape\<close> appended to \<open>self.labelList\<close> by \<open>addLabel\<close>.
\<close>

fun loadAnno_loop :: "string list \<Rightarrow> json_shape list \<Rightarrow> shape list \<Rightarrow> shape list" where
  "loadAnno_loop category_list [] labelList = labelList"
| "loadAnno_loop category_list (js # rest) labelList =
     (let l = resolve_label category_list (js_label js) in
      if js_points js = [] then loadAnno_loop category_list rest labelList
      else loadAnno_loop category_list rest
             (labelList @ [Shape l (js_shape_type js) (js_group_id js) (js_flags js) (js_points js)]))"

definition loadAnno :: "string list \<Rightarrow> json_shape list \<Rightarrow> shape list \<Rightarrow> shape list" where
  "loadAnno category_list data labelList = loadAnno_loop category_list data labelList"

section \<open>The window state\<close>

text \<open>
  The attributes of the main window and its canvas that the modelled handlers read or
  write. \<open>labelList\<close> holds the committed shapes in list order; \<open>predictor_loaded\<close> says
  that \<open>self.predictor\<close> is not \<open>None\<close>.
\<close>

record window =
  labelList :: "shape list"
  category_list :: "string list"
  sam_mask :: "shape list"
  sam_mask_proposal :: "shape list list"
  currentBox :: "(point \<times> point) option"
  currentPos :: "point list option"
  currentNeg :: "point list option"
  class_on_flag :: bool
  predictor_loaded :: bool
  current_img :: string
  image_encoded_flag :: bool

text \<open>
  A handler either returns or raises; in both cases the window keeps the attribute values
  assigned so far. The result is the exception raised, if any, and the window as left.
\<close>

type_synonym outcome = "py_error option \<times> window"

subsection \<open>Manual choice of a proposal\<close>

definition choose_proposal1 :: "window \<Rightarrow> window" where
  "choose_proposal1 st =
     (if length (sam_mask_proposal st) > 0 then st\<lparr>sam_mask := sam_mask_proposal st ! 0\<rparr> else st)"

definition choose_proposal2 :: "window \<Rightarrow> window" where
  "choose_proposal2 st =
     (if length (sam_mask_proposal st) > 1 then st\<lparr>sam_mask := sam_mask_proposal st ! 1\<rparr> else st)"

definition choose_proposal3 :: "window \<Rightarrow> window" where
  "choose_proposal3 st =
     (if length (sam_mask_proposal st) > 2 then st\<lparr>sam_mask := sam_mask_proposal st ! 2\<rparr> else st)"

definition choose_proposal4 :: "window \<Rightarrow> window" where
  "choose_proposal4 st =
     (if length (sam_mask_proposal st) > 3 then st\<lparr>sam_mask := sam_mask_proposal st ! 3\<rparr> else st)"

text \<open>
  The four buttons, by zero-based slot number. There is no handler for any other slot, so
  choosing one changes nothing.
\<close>

definition choose_proposal :: "nat \<Rightarrow> window \<Rightarrow> window" where
  "choose_proposal i st =
     (if i = 0 then choose_proposal1 st
      else if i = 1 then choose_proposal2 st
      else if i = 2 then choose_proposal3 st
      else if i = 3 then choose_proposal4 st
      else st)"

subsection \<open>From masks to polygon proposals\<close>












subsection \<open>Committing the selected mask\<close>

text \<open>
  The result of \<open>self.labelDialog.popUp\<close> (a widget of labelme): a 3-tuple
  \<open>(label, flags, group_id)\<close> or a 4-tuple with a description, where the label is a
  string or \<open>None\<close>. The dialog is a parameter \<open>popUp\<close>, called with the proposed label
  and group id.
\<close>

datatype popup_result =
  Tuple3 "string option" "(string \<times> bool) list option" pyval
| Tuple4 "string option" "(string \<times> bool) list option" pyval pyval

text \<open>
  The loop \<open>for sam_mask in self.sam_mask\<close>: stamp label and group id, then \<open>addLabel\<close>,
  which appends the shape to the label list (what \<open>addLabel\<close> does to the list widgets
  and colours is not part of the model).
\<close>

fun add_loop :: "string \<Rightarrow> pyval \<Rightarrow> shape list \<Rightarrow> shape list \<Rightarrow> shape list" where
  "add_loop l g [] ll = ll"
| "add_loop l g (s # ss) ll = add_loop l g ss (ll @ [s\<lparr>label := l, group_id := g\<rparr>])"

definition clear_prompt :: "window \<Rightarrow> window" where
  "clear_prompt st =
     st\<lparr>currentBox := None, currentPos := None, currentNeg := None,
        sam_mask := [], sam_mask_proposal := []\<rparr>"

definition addSamMask :: "(string \<Rightarrow> pyval \<Rightarrow> popup_result) \<Rightarrow> window \<Rightarrow> outcome" where
  "addSamMask popUp st =
     (if length (sam_mask st) > 0 then
        (case getMaxId (labelList st) of
           Inl e \<Rightarrow> (Some e, st)
         | Inr m \<Rightarrow>
             (let (l0, g0) =
                    (if class_on_flag st then
                       (case popUp ''Object'' (PyInt (m + 1)) of
                          Tuple4 l _ g _ \<Rightarrow> (l, g)
                        | Tuple3 l _ g \<Rightarrow> (l, g))
                     else (Some ''Object'', PyInt (m + 1)));
                  l1 = (case l0 of None \<Rightarrow> ''Object'' | Some l \<Rightarrow> l)
              in (case g0 of
                    PyInt g \<Rightarrow>
                      (None, clear_prompt (st\<lparr>labelList := add_loop l1 (PyInt g) (sam_mask st) (labelList st)\<rparr>))
                  | _ \<Rightarrow>
                      (case getMaxId (labelList st) of
                         Inl e \<Rightarrow> (Some e, st)
                       | Inr m' \<Rightarrow>
                           (None, clear_prompt
                              (st\<lparr>labelList := add_loop l1 (PyInt (m' + 1)) (sam_mask st) (labelList st)\<rparr>))))))
      else (None, clear_prompt st))"

section \<open>Point reduction\<close>

text \<open>The distance \<open>math.sqrt((p[0] - q[0]) ** 2 + (p[1] - q[1]) ** 2)\<close>.\<close>

definition distance :: "point \<Rightarrow> point \<Rightarrow> real" where
  "distance p q = sqrt ((fst p - fst q)\<^sup>2 + (snd p - snd q)\<^sup>2)"

text \<open>
  \<open>get_min_dis\<close>: \<open>prev\<close> is \<open>points_new[-1]\<close>, which is always the point before the
  current one, since every point is appended.
\<close>

fun min_dis_loop :: "real \<Rightarrow> point \<Rightarrow> point list \<Rightarrow> real" where
  "min_dis_loop min_dis prev [] = min_dis"
| "min_dis_loop min_dis prev (p # ps) = min_dis_loop (min min_dis (distance p prev)) p ps"

definition get_min_dis :: "point list \<Rightarrow> real" where
  "get_min_dis pts =
     (case pts of
        p # q # rest \<Rightarrow> min_dis_loop 10000 p (q # rest)
      | _ \<Rightarrow> 10000)"

text \<open>
  The loop of \<open>reducePoint\<close> over \<open>points[1:]\<close> with the threshold \<open>t\<close>; \<open>points_new\<close> is
  never empty, it starts as \<open>[points[0]]\<close>.
\<close>

fun reduce_loop :: "real \<Rightarrow> point list \<Rightarrow> point list \<Rightarrow> point list" where
  "reduce_loop t points_new [] = points_new"
| "reduce_loop t points_new (p # ps) =
     (if distance p (last points_new) > t then reduce_loop t (points_new @ [p]) ps
      else reduce_loop t points_new ps)"

text \<open>The pass with a given threshold; \<open>points[0]\<close> raises on an empty list.\<close>

definition decimate :: "real \<Rightarrow> point list \<Rightarrow> py_error + point list" where
  "decimate t pts = (case pts of [] \<Rightarrow> Inl IndexError | p # rest \<Rightarrow> Inr (reduce_loop t [p] rest))"

text \<open>What \<open>reducePoint\<close> does to the points of one selected shape.\<close>

definition reducePoint :: "point list \<Rightarrow> py_error + point list" where
  "reducePoint pts = decimate (get_min_dis pts * 1.5) pts"

section \<open>Definitions used to state the properties\<close>

text \<open>
  The group ids of an annotation set as integers: the value of \<open>int(group_id)\<close> for every
  shape where that conversion returns (so \<open>None\<close> contributes nothing).
\<close>

definition group_ids :: "shape list \<Rightarrow> int list" where
  "group_ids ll = concat (map (\<lambda>s. case py_int (group_id s) of Inl _ \<Rightarrow> [] | Inr i \<Rightarrow> [i]) ll)"

text \<open>
  The next group id in the words of the specification: one more than the maximum of the
  group ids that are not \<open>None\<close>, the maximum being \<open>-1\<close> when there is none.
\<close>

definition spec_nextGroupId :: "shape list \<Rightarrow> int" where
  "spec_nextGroupId ll = 1 + (if group_ids ll = [] then - 1 else Max (set (group_ids ll)))"

text \<open>A triangle labelled \<open>Object\<close> with a given group id, for concrete instances.\<close>

definition object_shape :: "pyval \<Rightarrow> shape" where
  "object_shape g = Shape ''Object'' ''polygon'' g None [(0, 0), (4, 0), (0, 3)]"

text \<open>The shape \<open>loadAnno\<close> builds from one file entry that has points.\<close>

definition loaded_shape :: "string list \<Rightarrow> json_shape \<Rightarrow> shape" where
  "loaded_shape cats js =
     Shape (resolve_label cats (js_label js)) (js_shape_type js) (js_group_id js) (js_flags js) (js_points js)"

text \<open>An entry of the annotation file with a given label and points.\<close>

definition entry :: "string \<Rightarrow> point list \<Rightarrow> json_shape" where
  "entry l ps = \<lparr>js_label = l, js_points = ps, js_group_id = PyNone, js_shape_type = ''polygon'', js_flags = Some []\<rparr>"

text \<open>A window with a loaded predictor and image, no prompt and no shapes.\<close>

definition window0 :: window where
  "window0 =
     \<lparr>labelList = [], category_list = [], sam_mask = [], sam_mask_proposal = [],
      currentBox = None, currentPos = None, currentNeg = None, class_on_flag = True,
      predictor_loaded = True, current_img = ''a.jpg'', image_encoded_flag = False\<rparr>"

text \<open>
  A point list in which every point is farther than \<open>t\<close> from the point before it.
\<close>

fun spaced :: "real \<Rightarrow> point list \<Rightarrow> bool" where
  "spaced t [] = True"
| "spaced t [p] = True"
| "spaced t (p # q # ps) = (distance q p > t \<and> spaced t (q # ps))"








text \<open>The window of the instances after a box was drawn.\<close>

definition box_window :: window where
  "box_window = window0\<lparr>currentBox := Some ((0, 0), (30, 30))\<rparr>"

text \<open>The label and the group id of a dialog result, whatever its arity.\<close>

fun popup_label :: "popup_result \<Rightarrow> string option" where
  "popup_label (Tuple3 l f g) = l"
| "popup_label (Tuple4 l f g d) = l"

fun popup_group_id :: "popup_result \<Rightarrow> pyval" where
  "popup_group_id (Tuple3 l f g) = g"
| "popup_group_id (Tuple4 l f g d) = g"

text \<open>A shape after \<open>sam_mask.label = l\<close> and \<open>sam_mask.group_id = g\<close>.\<close>

definition stamp :: "string \<Rightarrow> pyval \<Rightarrow> shape \<Rightarrow> shape" where
  "stamp l g s = s\<lparr>label := l, group_id := g\<rparr>"

text \<open>
  The window of the instances with a selected mask of one polygon, and the same window
  after an annotation file was loaded that this annotator had saved with a shape without
  group id.
\<close>

definition prompt_window :: window where
  "prompt_window =
     box_window\<lparr>sam_mask := [object_shape (PyInt 0)], sam_mask_proposal := [[object_shape (PyInt 0)]]\<rparr>"

definition reloaded_window :: window where
  "reloaded_window = prompt_window\<lparr>labelList := loadAnno [] (saveLabels [object_shape PyNone]) []\<rparr>"

section \<open>Integer conversion and the label list\<close>

lemma int_of_str_None: "int_of_str ''None'' = Inl ValueError"
  by (simp add: int_of_str_def strip_def is_space_def parse_nat_def is_digit_def)

lemma int_of_str_error: "int_of_str s = Inl e \<Longrightarrow> e = ValueError"
  by (auto simp: int_of_str_def split: list.splits if_splits option.splits)

lemma getMaxId_loop_Max:
  assumes "\<forall>s\<in>set ll. group_id s = PyNone \<or> (\<exists>i. py_int (group_id s) = Inr i)"
  shows "getMaxId_loop m ll = Inr (Max (insert m (set (group_ids ll))))"
  using assms
proof (induction ll arbitrary: m)
  case Nil
  then show ?case by (simp add: group_ids_def)
next
  case (Cons s ss)
  have fin: "finite (set (group_ids ss))" by simp
  show ?case
  proof (cases "group_id s = PyNone")
    case True
    with Cons show ?thesis by (simp add: group_ids_def)
  next
    case False
    with Cons.prems obtain i where i: "py_int (group_id s) = Inr i" by auto
    have "getMaxId_loop m (s # ss) = getMaxId_loop (max m i) ss"
      using False i by simp
    also have "\<dots> = Inr (Max (insert (max m i) (set (group_ids ss))))"
      using Cons by simp
    also have "Max (insert (max m i) (set (group_ids ss))) = Max (insert m (insert i (set (group_ids ss))))"
      using fin by (cases "set (group_ids ss) = {}") (simp_all add: max.assoc)
    also have "insert m (insert i (set (group_ids ss))) = insert m (set (group_ids (s # ss)))"
      using i by (simp add: group_ids_def)
    finally show ?thesis .
  qed
qed

lemma loadAnno_loop_eq:
  "loadAnno_loop cats data acc = acc @ map (loaded_shape cats) (filter (\<lambda>js. js_points js \<noteq> []) data)"
  by (induction data arbitrary: acc) (simp_all add: Let_def loaded_shape_def)

lemma getMaxId_loop_str_None:
  assumes "\<forall>s\<in>set xs. \<exists>str. group_id s = PyStr str"
    and "\<exists>s\<in>set xs. group_id s = PyStr ''None''"
  shows "getMaxId_loop m xs = Inl ValueError"
  using assms
proof (induction xs arbitrary: m)
  case Nil
  then show ?case by simp
next
  case (Cons s ss)
  then obtain str where str: "group_id s = PyStr str" by auto
  show ?case
  proof (cases "int_of_str str")
    case (Inl e)
    then have "e = ValueError" by (rule int_of_str_error)
    with Inl str show ?thesis by simp
  next
    case (Inr i)
    then have "str \<noteq> ''None''" using int_of_str_None by auto
    with Cons.prems str have "\<exists>s\<in>set ss. group_id s = PyStr ''None''" by auto
    moreover from Cons.prems have "\<forall>s\<in>set ss. \<exists>str. group_id s = PyStr str" by simp
    ultimately have "getMaxId_loop (max m i) ss = Inl ValueError" by (rule Cons.IH[rotated])
    with Inr str show ?thesis by simp
  qed
qed

section \<open>The next group id\<close>

text \<open>
  C3, as stated, fails on the code: the running maximum of \<open>getMaxId\<close> starts at \<open>-1\<close>
  and never drops below it. With the single group id \<open>-5\<close> the next group id is \<open>0\<close>,
  while one more than the maximum of the existing group ids is \<open>-4\<close>.
\<close>

theorem nextGroupId_below_minus_one:
  "nextGroupId [object_shape (PyInt (- 5))] = Inr 0 \<and> spec_nextGroupId [object_shape (PyInt (- 5))] = - 4"
  by (simp add: nextGroupId_def getMaxId_def spec_nextGroupId_def group_ids_def object_shape_def Shape_def)

text \<open>
  C3, amended: on an annotation set whose group ids are \<open>None\<close> or convert to integers,
  the next group id is one more than the maximum of \<open>-1\<close> and the group ids that are not
  \<open>None\<close>. Hence it is \<open>0\<close> when there is no such group id (empty set, or all \<open>None\<close>), and
  it is one more than the maximum of the existing group ids as soon as one of them is at
  least \<open>-1\<close>.
\<close>

theorem nextGroupId_max:
  assumes "\<forall>s\<in>set ll. group_id s = PyNone \<or> (\<exists>i. py_int (group_id s) = Inr i)"
  shows "nextGroupId ll = Inr (1 + Max (insert (- 1) (set (group_ids ll))))
       \<and> (group_ids ll = [] \<longrightarrow> nextGroupId ll = Inr 0)
       \<and> ((\<exists>i\<in>set (group_ids ll). - 1 \<le> i) \<longrightarrow> nextGroupId ll = Inr (spec_nextGroupId ll))"
proof -
  have eq: "nextGroupId ll = Inr (1 + Max (insert (- 1) (set (group_ids ll))))"
    using getMaxId_loop_Max[OF assms, of "- 1"] by (simp add: nextGroupId_def getMaxId_def)
  have empty: "nextGroupId ll = Inr 0" if "group_ids ll = []"
    using eq that by simp
  have some: "nextGroupId ll = Inr (spec_nextGroupId ll)" if "\<exists>i\<in>set (group_ids ll). - 1 \<le> i"
  proof -
    from that obtain i where i: "i \<in> set (group_ids ll)" "- 1 \<le> i" by blast
    then have ne: "set (group_ids ll) \<noteq> {}" "group_ids ll \<noteq> []" by auto
    have "i \<le> Max (set (group_ids ll))" using i by simp
    with i have "- 1 \<le> Max (set (group_ids ll))" by linarith
    then have "Max (insert (- 1) (set (group_ids ll))) = Max (set (group_ids ll))"
      using ne by (simp add: max_def)
    with eq ne show ?thesis by (simp add: spec_nextGroupId_def)
  qed
  from eq empty some show ?thesis by blast
qed

text \<open>
  The scenario of the specification: with the group ids \<open>0\<close>, \<open>2\<close> and \<open>5\<close> (the last one
  as the string a reloaded file holds, and one shape without group id) the next group id
  is \<open>6\<close>.
\<close>

theorem nextGroupId_max_witness:
  "group_ids [object_shape (PyInt 0), object_shape (PyInt 2), object_shape (PyStr ''5''), object_shape PyNone] = [0, 2, 5]
   \<and> nextGroupId [object_shape (PyInt 0), object_shape (PyInt 2), object_shape (PyStr ''5''), object_shape PyNone] = Inr 6"
proof -
  let ?ll = "[object_shape (PyInt 0), object_shape (PyInt 2), object_shape (PyStr ''5''), object_shape PyNone]"
  have five: "int_of_str ''5'' = Inr 5"
    by (simp add: int_of_str_def strip_def is_space_def parse_nat_def is_digit_def digit_val_def)
  have h: "\<forall>s\<in>set ?ll. group_id s = PyNone \<or> (\<exists>i. py_int (group_id s) = Inr i)"
    by (simp add: object_shape_def Shape_def five)
  have ids: "group_ids ?ll = [0, 2, 5]"
    by (simp add: group_ids_def object_shape_def Shape_def five)
  show ?thesis using h ids nextGroupId_max[OF h] by simp
qed

section \<open>Group ids after saving and loading\<close>

text \<open>
  C9: a shape without group id is written with the string \<open>None\<close> as its group id, the
  loader keeps that string, and \<open>getMaxId\<close> on the loaded annotation set raises
  \<open>ValueError\<close>. This holds for every annotation set that contains a shape with points
  and without group id, whatever the category list.
\<close>

theorem getMaxId_reload_raises:
  assumes "s \<in> set ll" and "group_id s = PyNone" and "points s \<noteq> []"
  shows "js_group_id (format_shape s) = PyStr ''None''
       \<and> getMaxId (loadAnno cats (saveLabels ll) []) = Inl ValueError"
proof -
  let ?xs = "map (loaded_shape cats) (filter (\<lambda>js. js_points js \<noteq> []) (map format_shape ll))"
  have fs: "js_group_id (format_shape s) = PyStr ''None''"
    using assms(2) by (simp add: format_shape_def)
  have all: "\<forall>x\<in>set ?xs. \<exists>str. group_id x = PyStr str"
    by (auto simp: loaded_shape_def Shape_def format_shape_def)
  have "format_shape s \<in> set (filter (\<lambda>js. js_points js \<noteq> []) (map format_shape ll))"
    using assms(1,3) by (simp add: format_shape_def)
  then have "loaded_shape cats (format_shape s) \<in> set ?xs"
    by (simp only: set_map) (rule imageI)
  moreover have "group_id (loaded_shape cats (format_shape s)) = PyStr ''None''"
    using fs by (simp add: loaded_shape_def Shape_def)
  ultimately have ex: "\<exists>x\<in>set ?xs. group_id x = PyStr ''None''" by blast
  have "getMaxId_loop (- 1) ?xs = Inl ValueError"
    using all ex by (rule getMaxId_loop_str_None)
  then have "getMaxId (loadAnno cats (saveLabels ll) []) = Inl ValueError"
    by (simp add: getMaxId_def loadAnno_def saveLabels_def loadAnno_loop_eq)
  with fs show ?thesis by simp
qed

text \<open>
  An instance: before saving, \<open>getMaxId\<close> returns \<open>3\<close>; after saving and loading it raises.
\<close>

theorem getMaxId_reload_raises_witness:
  "object_shape PyNone \<in> set [object_shape (PyInt 3), object_shape PyNone]
   \<and> group_id (object_shape PyNone) = PyNone \<and> points (object_shape PyNone) \<noteq> []
   \<and> getMaxId [object_shape (PyInt 3), object_shape PyNone] = Inr 3
   \<and> getMaxId (loadAnno [] (saveLabels [object_shape (PyInt 3), object_shape PyNone]) []) = Inl ValueError"
proof -
  have a: "object_shape PyNone \<in> set [object_shape (PyInt 3), object_shape PyNone]" by simp
  have b: "group_id (object_shape PyNone) = PyNone" by (simp add: object_shape_def Shape_def)
  have c: "points (object_shape PyNone) \<noteq> []" by (simp add: object_shape_def Shape_def)
  have d: "getMaxId [object_shape (PyInt 3), object_shape PyNone] = Inr 3"
    by (simp add: getMaxId_def object_shape_def Shape_def)
  show ?thesis using a b c d getMaxId_reload_raises[OF a b c, of "[]"] by simp
qed

section \<open>Loading an annotation file\<close>

text \<open>
  C7, as stated, fails on the code: the label \<open>7\<close> parses as an integer, the category
  list \<open>[cat, dog]\<close> has no entry at index 7, the lookup raises inside the \<open>try\<close> block
  and the shape is loaded with its label \<open>7\<close> unchanged.
\<close>

theorem loadAnno_label_out_of_range:
  "py_int (PyStr ''7'') = Inr 7
   \<and> py_index [''cat'', ''dog''] 7 = Inl IndexError
   \<and> map label (loadAnno [''cat'', ''dog''] [entry ''7'' [(1, 2)]] []) = [''7'']"
  by (simp add: py_index_def loadAnno_def resolve_label_def entry_def Shape_def
      int_of_str_def strip_def is_space_def parse_nat_def is_digit_def digit_val_def)

text \<open>
  C7, amended: \<open>loadAnno\<close> appends one shape for every entry that has points, in file
  order, and nothing for an entry without points, so every shape loaded into an empty
  label list has at least one point. A label that converts to an integer \<open>i\<close> is
  replaced by the category at index \<open>i\<close> when the category list has that index (a
  negative index counting from the end); when it has not, and when the label does not
  convert, the label is kept as read.
\<close>

theorem loadAnno_shapes:
  "loadAnno cats data ll = ll @ map (loaded_shape cats) (filter (\<lambda>js. js_points js \<noteq> []) data)
   \<and> (\<forall>s\<in>set (loadAnno cats data []). points s \<noteq> [])
   \<and> (\<forall>js\<in>set data. js_points js = [] \<longrightarrow> length (loadAnno cats data []) < length data)
   \<and> (\<forall>js i c. py_int (PyStr (js_label js)) = Inr i \<and> py_index cats i = Inr c
          \<longrightarrow> label (loaded_shape cats js) = c)
   \<and> (\<forall>js i e. py_int (PyStr (js_label js)) = Inr i \<and> py_index cats i = Inl e
          \<longrightarrow> label (loaded_shape cats js) = js_label js)
   \<and> (\<forall>js e. py_int (PyStr (js_label js)) = Inl e \<longrightarrow> label (loaded_shape cats js) = js_label js)"
proof -
  have eq: "loadAnno cats data ll = ll @ map (loaded_shape cats) (filter (\<lambda>js. js_points js \<noteq> []) data)" for ll
    by (simp add: loadAnno_def loadAnno_loop_eq)
  have pts: "\<forall>s\<in>set (loadAnno cats data []). points s \<noteq> []"
    by (auto simp: eq loaded_shape_def Shape_def)
  have skip: "\<forall>js\<in>set data. js_points js = [] \<longrightarrow> length (loadAnno cats data []) < length data"
  proof (intro ballI impI)
    fix js assume "js \<in> set data" "js_points js = []"
    then have "length (filter (\<lambda>js. js_points js \<noteq> []) data) < length data"
      by (intro length_filter_less[of js]) auto
    then show "length (loadAnno cats data []) < length data" by (simp add: eq)
  qed
  have l1: "\<forall>js i c. py_int (PyStr (js_label js)) = Inr i \<and> py_index cats i = Inr c
          \<longrightarrow> label (loaded_shape cats js) = c"
    by (simp add: loaded_shape_def Shape_def resolve_label_def)
  have l2: "\<forall>js i e. py_int (PyStr (js_label js)) = Inr i \<and> py_index cats i = Inl e
          \<longrightarrow> label (loaded_shape cats js) = js_label js"
    by (simp add: loaded_shape_def Shape_def resolve_label_def)
  have l3: "\<forall>js e. py_int (PyStr (js_label js)) = Inl e \<longrightarrow> label (loaded_shape cats js) = js_label js"
    by (simp add: loaded_shape_def Shape_def resolve_label_def)
  from eq pts skip l1 l2 l3 show ?thesis by blast
qed

text \<open>
  An instance: the label \<open>1\<close> becomes \<open>dog\<close>, the entry without points is dropped, the
  label \<open>tree\<close> is kept.
\<close>

theorem loadAnno_shapes_witness:
  "loadAnno [''cat'', ''dog''] [entry ''1'' [(1, 2)], entry ''7'' [], entry ''tree'' [(3, 4)]] []
     = [Shape ''dog'' ''polygon'' PyNone (Some []) [(1, 2)],
        Shape ''tree'' ''polygon'' PyNone (Some []) [(3, 4)]]"
  using loadAnno_shapes[of "[''cat'', ''dog'']"
      "[entry ''1'' [(1, 2)], entry ''7'' [], entry ''tree'' [(3, 4)]]" "[]"]
  by (simp add: loaded_shape_def resolve_label_def py_index_def entry_def
      int_of_str_def strip_def is_space_def parse_nat_def is_digit_def digit_val_def)

section \<open>Choosing a proposal by hand\<close>

text \<open>
  C8: choosing slot \<open>i\<close> (counted from 0) when there are at most \<open>i\<close> proposals leaves the
  window as it is, the selected mask and the proposal list included. This is so for the
  dispatch over the four buttons and for each button's handler on its own.
\<close>

theorem choose_out_of_range:
  assumes "length (sam_mask_proposal st) \<le> i"
  shows "choose_proposal i st = st
       \<and> (i \<le> 0 \<longrightarrow> choose_proposal1 st = st)
       \<and> (i \<le> 1 \<longrightarrow> choose_proposal2 st = st)
       \<and> (i \<le> 2 \<longrightarrow> choose_proposal3 st = st)
       \<and> (i \<le> 3 \<longrightarrow> choose_proposal4 st = st)"
  using assms
  by (auto simp: choose_proposal_def choose_proposal1_def choose_proposal2_def
      choose_proposal3_def choose_proposal4_def)

text \<open>
  An instance with two proposals: the third button changes nothing, while the second
  selects the second proposal.
\<close>

theorem choose_out_of_range_witness:
  "length (sam_mask_proposal (window0\<lparr>sam_mask := [object_shape (PyInt 0)],
       sam_mask_proposal := [[object_shape (PyInt 0)], [object_shape (PyInt 1)]]\<rparr>)) \<le> 2
   \<and> choose_proposal3 (window0\<lparr>sam_mask := [object_shape (PyInt 0)],
       sam_mask_proposal := [[object_shape (PyInt 0)], [object_shape (PyInt 1)]]\<rparr>)
     = window0\<lparr>sam_mask := [object_shape (PyInt 0)],
       sam_mask_proposal := [[object_shape (PyInt 0)], [object_shape (PyInt 1)]]\<rparr>
   \<and> sam_mask (choose_proposal2 (window0\<lparr>sam_mask := [object_shape (PyInt 0)],
       sam_mask_proposal := [[object_shape (PyInt 0)], [object_shape (PyInt 1)]]\<rparr>))
     = [object_shape (PyInt 1)]"
proof -
  let ?st = "window0\<lparr>sam_mask := [object_shape (PyInt 0)],
       sam_mask_proposal := [[object_shape (PyInt 0)], [object_shape (PyInt 1)]]\<rparr>"
  have h: "length (sam_mask_proposal ?st) \<le> 2" by simp
  have c: "sam_mask (choose_proposal2 ?st) = [object_shape (PyInt 1)]"
    by (simp add: choose_proposal2_def)
  show ?thesis using h c choose_out_of_range[OF h] by simp
qed

section \<open>Point reduction\<close>

lemma distance_vertical: "distance (0, a) (0, b) = \<bar>a - b\<bar>"
  by (simp add: distance_def)

lemma spaced_snoc:
  "xs \<noteq> [] \<Longrightarrow> spaced t (xs @ [p]) = (spaced t xs \<and> distance p (last xs) > t)"
  by (induction t xs rule: spaced.induct) auto

lemma reduce_loop_spaced:
  "acc \<noteq> [] \<Longrightarrow> spaced t acc \<Longrightarrow> spaced t (reduce_loop t acc ps)"
  by (induction ps arbitrary: acc) (auto simp: spaced_snoc)

lemma reduce_loop_prefix:
  "\<exists>ys. reduce_loop t acc ps = acc @ ys \<and> length ys \<le> length ps"
proof (induction ps arbitrary: acc)
  case Nil
  then show ?case by simp
next
  case (Cons p ps)
  show ?case
  proof (cases "distance p (last acc) > t")
    case True
    from Cons[of "acc @ [p]"] obtain ys where
      "reduce_loop t (acc @ [p]) ps = (acc @ [p]) @ ys" "length ys \<le> length ps" by blast
    with True show ?thesis by (intro exI[of _ "p # ys"]) simp
  next
    case False
    from Cons[of acc] obtain ys where
      "reduce_loop t acc ps = acc @ ys" "length ys \<le> length ps" by blast
    with False show ?thesis by (intro exI[of _ ys]) simp
  qed
qed

lemma reduce_loop_fixed:
  "acc \<noteq> [] \<Longrightarrow> spaced t (acc @ ys) \<Longrightarrow> reduce_loop t acc ys = acc @ ys"
proof (induction ys arbitrary: acc)
  case Nil
  then show ?case by simp
next
  case (Cons y ys)
  from Cons.prems have sp: "spaced t ((acc @ [y]) @ ys)" by simp
  have "spaced t (acc @ [y])"
    using sp
  proof (induction ys rule: rev_induct)
    case Nil then show ?case by simp
  next
    case (snoc z zs)
    have "(acc @ [y]) @ zs @ [z] = ((acc @ [y]) @ zs) @ [z]" by simp
    with snoc.prems have "spaced t ((acc @ [y]) @ zs)"
      using spaced_snoc[of "(acc @ [y]) @ zs" t z] by simp
    then show ?case by (rule snoc.IH)
  qed
  then have d: "distance y (last acc) > t"
    using Cons.prems(1) by (simp add: spaced_snoc)
  have "reduce_loop t (acc @ [y]) ys = (acc @ [y]) @ ys"
    using sp by (intro Cons.IH) simp_all
  with d show ?case by simp
qed

text \<open>
  C5, as stated, fails on the code: on the points of scenario C the result is not
  \<open>[(0,0), (0,6), (0,26)]\<close>.
\<close>

theorem reducePoint_scenario_C_differs:
  "reducePoint [(0, 0), (0, 2), (0, 4), (0, 6), (0, 26)] \<noteq> Inr [(0, 0), (0, 6), (0, 26)]"
  by (simp add: reducePoint_def decimate_def get_min_dis_def distance_vertical)

text \<open>
  C5, amended: on the points \<open>[(0,0), (0,2), (0,4), (0,6), (0,26)]\<close> the smallest gap is 2
  (threshold 3) and the points kept are \<open>[(0,0), (0,4), (0,26)]\<close>: the point \<open>(0,4)\<close> is
  at distance 4 from the last point kept, \<open>(0,0)\<close>, so it is kept, and \<open>(0,6)\<close> is at
  distance 2 from \<open>(0,4)\<close>, so it is dropped.
\<close>

theorem reducePoint_scenario_C:
  "get_min_dis [(0, 0), (0, 2), (0, 4), (0, 6), (0, 26)] = 2
   \<and> reducePoint [(0, 0), (0, 2), (0, 4), (0, 6), (0, 26)] = Inr [(0, 0), (0, 4), (0, 26)]"
  by (simp add: reducePoint_def decimate_def get_min_dis_def distance_vertical)

text \<open>
  C6: on a point list that is not empty, the reduction returns a list that starts with
  the first input point, is no longer than the input, and is returned unchanged by the
  same pass run again with the same threshold (1.5 times the smallest gap of the
  input).
\<close>

theorem reducePoint_fixed_point:
  assumes "pts \<noteq> []"
  shows "\<exists>kept. reducePoint pts = Inr kept
           \<and> kept \<noteq> [] \<and> hd kept = hd pts
           \<and> length kept \<le> length pts
           \<and> decimate (get_min_dis pts * 1.5) kept = Inr kept"
proof -
  from assms obtain p rest where pts: "pts = p # rest" by (cases pts) auto
  let ?t = "get_min_dis pts * 1.5"
  let ?kept = "reduce_loop ?t [p] rest"
  obtain ys where ys: "?kept = [p] @ ys" "length ys \<le> length rest"
    using reduce_loop_prefix[of ?t "[p]" rest] by blast
  have sp: "spaced ?t ?kept" by (rule reduce_loop_spaced) simp_all
  have "reduce_loop ?t [p] ys = [p] @ ys"
    using sp ys(1) by (intro reduce_loop_fixed) simp_all
  then have fp: "decimate ?t ?kept = Inr ?kept"
    using ys(1) by (simp add: decimate_def)
  have red: "reducePoint pts = Inr ?kept" by (simp add: reducePoint_def decimate_def pts)
  show ?thesis
    using red fp ys pts by (intro exI[of _ ?kept]) simp
qed

text \<open>
  An instance: the smallest gap is 1, the threshold 1.5; the points \<open>(0,1)\<close> and \<open>(0,6)\<close>
  are dropped, and the pass leaves the three points kept as they are.
\<close>

theorem reducePoint_fixed_point_witness:
  "reducePoint [(0, 0), (0, 1), (0, 5), (0, 6), (0, 9)] = Inr [(0, 0), (0, 5), (0, 9)]
   \<and> decimate (get_min_dis [(0, 0), (0, 1), (0, 5), (0, 6), (0, 9)] * 1.5) [(0, 0), (0, 5), (0, 9)]
       = Inr [(0, 0), (0, 5), (0, 9)]"
  using reducePoint_fixed_point[of "[(0, 0), (0, 1), (0, 5), (0, 6), (0, 9)]"]
  by (simp add: reducePoint_def decimate_def get_min_dis_def distance_vertical)

section \<open>Contours of a mask\<close>








section \<open>The default proposal\<close>








section \<open>Committing the selected mask\<close>

lemma add_loop_eq: "add_loop l g ss ll = ll @ map (stamp l g) ss"
  by (induction ss arbitrary: ll) (simp_all add: stamp_def)

lemma addSamMask_eq:
  assumes "sam_mask st \<noteq> []" and "getMaxId (labelList st) = Inr m"
  shows "addSamMask popUp st =
     (let r = popUp ''Object'' (PyInt (m + 1));
          l0 = (if class_on_flag st then popup_label r else Some ''Object'');
          g0 = (if class_on_flag st then popup_group_id r else PyInt (m + 1));
          l1 = (case l0 of None \<Rightarrow> ''Object'' | Some l \<Rightarrow> l);
          g1 = (case g0 of PyInt g \<Rightarrow> PyInt g | _ \<Rightarrow> PyInt (m + 1))
      in (None, clear_prompt (st\<lparr>labelList := labelList st @ map (stamp l1 g1) (sam_mask st)\<rparr>)))"
  using assms
  by (cases "popUp ''Object'' (PyInt (m + 1))"; cases "popup_group_id (popUp ''Object'' (PyInt (m + 1)))")
     (simp_all add: addSamMask_def add_loop_eq Let_def)

text \<open>
  C4, as stated, fails on the code: only the label \<open>None\<close> is replaced by \<open>Object\<close>. A
  dialog result with the empty string as label stamps the empty string on the committed
  shape.
\<close>

theorem addSamMask_empty_label_kept:
  "addSamMask (\<lambda>text gid. Tuple3 (Some []) (Some []) (PyInt 7)) prompt_window
     = (None, clear_prompt (prompt_window\<lparr>labelList := [stamp [] (PyInt 7) (object_shape (PyInt 0))]\<rparr>))
   \<and> map label (labelList (snd (addSamMask (\<lambda>text gid. Tuple3 (Some []) (Some []) (PyInt 7)) prompt_window)))
     = [[]]"
  by (simp add: addSamMask_def prompt_window_def box_window_def window0_def getMaxId_def
      clear_prompt_def stamp_def)

text \<open>
  C4, amended: when a non-empty selected mask is committed on an annotation set for
  which \<open>getMaxId\<close> returns \<open>m\<close>, the call returns without an exception for a dialog result
  of either arity; the label stamped is \<open>Object\<close> when the dialog's label is \<open>None\<close> and
  the dialog's label otherwise (the empty string included); the group id stamped is the
  dialog's group id when that is an integer and \<open>m + 1\<close> otherwise. With the class switch
  off there is no dialog and the shapes get \<open>Object\<close> and \<open>m + 1\<close>.
\<close>

theorem addSamMask_defaults:
  assumes "sam_mask st \<noteq> []" and "getMaxId (labelList st) = Inr m"
    and "popUp ''Object'' (PyInt (m + 1)) = r"
  shows "(class_on_flag st \<longrightarrow>
            addSamMask popUp st =
              (None, clear_prompt (st\<lparr>labelList := labelList st @
                 map (stamp (case popup_label r of None \<Rightarrow> ''Object'' | Some l \<Rightarrow> l)
                            (case popup_group_id r of PyInt g \<Rightarrow> PyInt g | _ \<Rightarrow> PyInt (m + 1)))
                     (sam_mask st)\<rparr>)))
       \<and> (\<not> class_on_flag st \<longrightarrow>
            addSamMask popUp st =
              (None, clear_prompt (st\<lparr>labelList := labelList st @
                 map (stamp ''Object'' (PyInt (m + 1))) (sam_mask st)\<rparr>)))
       \<and> fst (addSamMask popUp st) = None"
  using addSamMask_eq[OF assms(1,2), of popUp] assms(3)
  by (simp add: Let_def)

text \<open>
  Two instances on an annotation set with the group id 4: a 4-tuple with label \<open>None\<close>
  and a string as group id gives \<open>Object\<close> and 5; a 3-tuple with label \<open>cat\<close> and group id
  9 gives those.
\<close>

theorem addSamMask_defaults_witness:
  "addSamMask (\<lambda>text gid. Tuple4 None None (PyStr ''x'') PyNone)
       (prompt_window\<lparr>labelList := [object_shape (PyInt 4)]\<rparr>)
     = (None, clear_prompt (prompt_window\<lparr>labelList :=
          [object_shape (PyInt 4), stamp ''Object'' (PyInt 5) (object_shape (PyInt 0))]\<rparr>))
   \<and> addSamMask (\<lambda>text gid. Tuple3 (Some ''cat'') (Some []) (PyInt 9))
       (prompt_window\<lparr>labelList := [object_shape (PyInt 4)]\<rparr>)
     = (None, clear_prompt (prompt_window\<lparr>labelList :=
          [object_shape (PyInt 4), stamp ''cat'' (PyInt 9) (object_shape (PyInt 0))]\<rparr>))"
proof -
  let ?st = "prompt_window\<lparr>labelList := [object_shape (PyInt 4)]\<rparr>"
  have h1: "sam_mask ?st \<noteq> []" by (simp add: prompt_window_def)
  have h2: "getMaxId (labelList ?st) = Inr 4" by (simp add: getMaxId_def object_shape_def Shape_def)
  have c: "class_on_flag ?st" by (simp add: prompt_window_def box_window_def window0_def)
  have s: "sam_mask ?st = [object_shape (PyInt 0)]" by (simp add: prompt_window_def)
  have l: "labelList ?st = [object_shape (PyInt 4)]" by simp
  from addSamMask_defaults[OF h1 h2 refl, of "\<lambda>text gid. Tuple4 None None (PyStr ''x'') PyNone"]
    addSamMask_defaults[OF h1 h2 refl, of "\<lambda>text gid. Tuple3 (Some ''cat'') (Some []) (PyInt 9)"]
  show ?thesis unfolding s l using c by simp
qed

section \<open>Clearing the prompt\<close>

text \<open>
  C10, as stated, fails on the code: the statements that clear the prompt come after the
  call of \<open>getMaxId\<close>. With a selected mask and a label list holding the group id string
  \<open>None\<close> (as loaded from a file saved with a shape without group id), \<open>addSamMask\<close> raises
  \<open>ValueError\<close> and the box, the selected mask and the proposals stay as they were.
\<close>

theorem addSamMask_raises_uncleared:
  "addSamMask (\<lambda>text gid. Tuple3 (Some ''cat'') (Some []) (PyInt 9)) reloaded_window
     = (Some ValueError, reloaded_window)
   \<and> currentBox reloaded_window = Some ((0, 0), (30, 30))
   \<and> sam_mask reloaded_window = [object_shape (PyInt 0)]
   \<and> sam_mask_proposal reloaded_window = [[object_shape (PyInt 0)]]"
proof -
  have "getMaxId (labelList reloaded_window) = Inl ValueError"
    by (simp add: reloaded_window_def loadAnno_def saveLabels_def format_shape_def object_shape_def
        Shape_def getMaxId_def int_of_str_None)
  then show ?thesis
    by (simp add: addSamMask_def) (simp add: reloaded_window_def prompt_window_def box_window_def)
qed

text \<open>
  C10, amended: every call of \<open>addSamMask\<close> that returns has cleared the box and the
  click lists and emptied the selected mask and the proposal list. A call with an empty
  selected mask always returns, and leaves the label list unchanged; a call with a
  selected mask returns whenever \<open>getMaxId\<close> does.
\<close>

theorem addSamMask_clears:
  "(sam_mask st = [] \<longrightarrow>
      addSamMask popUp st = (None, clear_prompt st) \<and> labelList (clear_prompt st) = labelList st)
   \<and> ((sam_mask st = [] \<or> (\<exists>m. getMaxId (labelList st) = Inr m)) \<longrightarrow> fst (addSamMask popUp st) = None)
   \<and> (fst (addSamMask popUp st) = None \<longrightarrow>
        currentBox (snd (addSamMask popUp st)) = None
        \<and> currentPos (snd (addSamMask popUp st)) = None
        \<and> currentNeg (snd (addSamMask popUp st)) = None
        \<and> sam_mask (snd (addSamMask popUp st)) = []
        \<and> sam_mask_proposal (snd (addSamMask popUp st)) = [])"
proof -
  have a: "sam_mask st = [] \<longrightarrow>
      addSamMask popUp st = (None, clear_prompt st) \<and> labelList (clear_prompt st) = labelList st"
    by (simp add: addSamMask_def clear_prompt_def)
  have b: "fst (addSamMask popUp st) = None" if "sam_mask st = [] \<or> (\<exists>m. getMaxId (labelList st) = Inr m)"
  proof (cases "sam_mask st = []")
    case True
    then show ?thesis by (simp add: addSamMask_def)
  next
    case False
    with that obtain m where "getMaxId (labelList st) = Inr m" by blast
    from addSamMask_eq[OF False this, of popUp] show ?thesis by (simp add: Let_def)
  qed
  have c: "currentBox (snd (addSamMask popUp st)) = None
        \<and> currentPos (snd (addSamMask popUp st)) = None
        \<and> currentNeg (snd (addSamMask popUp st)) = None
        \<and> sam_mask (snd (addSamMask popUp st)) = []
        \<and> sam_mask_proposal (snd (addSamMask popUp st)) = []" if ok: "fst (addSamMask popUp st) = None"
  proof (cases "sam_mask st = []")
    case True
    then show ?thesis by (simp add: addSamMask_def clear_prompt_def)
  next
    case False
    show ?thesis
    proof (cases "getMaxId (labelList st)")
      case (Inl e)
      with False ok show ?thesis by (simp add: addSamMask_def)
    next
      case (Inr m)
      from addSamMask_eq[OF False this, of popUp] show ?thesis
        by (simp add: Let_def clear_prompt_def)
    qed
  qed
  from a b c show ?thesis by blast
qed

text \<open>
  An instance with a box drawn and no selected mask: the box is cleared, the label list
  is unchanged.
\<close>

theorem addSamMask_clears_witness:
  "addSamMask (\<lambda>text gid. Tuple3 (Some ''cat'') (Some []) (PyInt 9))
       (box_window\<lparr>labelList := [object_shape (PyInt 4)]\<rparr>)
     = (None, window0\<lparr>labelList := [object_shape (PyInt 4)]\<rparr>)
   \<and> currentBox (box_window\<lparr>labelList := [object_shape (PyInt 4)]\<rparr>) = Some ((0, 0), (30, 30))"
proof -
  let ?st = "box_window\<lparr>labelList := [object_shape (PyInt 4)]\<rparr>"
  have e: "sam_mask ?st = []" by (simp add: box_window_def window0_def)
  have "clear_prompt ?st = window0\<lparr>labelList := [object_shape (PyInt 4)]\<rparr>"
    by (simp add: clear_prompt_def box_window_def window0_def)
  with e addSamMask_clears[of ?st "\<lambda>text gid. Tuple3 (Some ''cat'') (Some []) (PyInt 9)"]
  show ?thesis by (simp add: box_window_def)
qed

end
